theory Spec2Isabelle
  imports Complex_Main
begin

section \<open>Numbers and vectors\<close>

text \<open>
  The simulation computes with JavaScript numbers. They are modelled as real numbers:
  rounding, infinities and NaN are outside the model, and so is the rounding to single
  precision of the buffers handed to the renderer. Counters that the code only ever
  increments from zero are natural numbers.

  The vectors are those of the three.js library, which is not part of the repository;
  the operations below follow its documented behaviour. All of them mutate the receiver
  in the library; here they return the new value, and every use site in the simulation
  either works on a fresh vector or stores the result back into the same field.
\<close>

record Vector3 =
  x :: real
  y :: real
  z :: real

definition Vec :: "real \<Rightarrow> real \<Rightarrow> real \<Rightarrow> Vector3" where
  "Vec a b c = \<lparr>x = a, y = b, z = c\<rparr>"

definition lengthSq :: "Vector3 \<Rightarrow> real" where
  "lengthSq v = x v * x v + y v * y v + z v * z v"

definition vlength :: "Vector3 \<Rightarrow> real" where
  "vlength v = sqrt (x v * x v + y v * y v + z v * z v)"

definition multiplyScalar :: "Vector3 \<Rightarrow> real \<Rightarrow> Vector3" where
  "multiplyScalar v s = Vec (x v * s) (y v * s) (z v * s)"

definition divideScalar :: "Vector3 \<Rightarrow> real \<Rightarrow> Vector3" where
  "divideScalar v s = multiplyScalar v (1 / s)"

text \<open>\<^verbatim>\<open>normalize()\<close> divides by \<^verbatim>\<open>this.length() || 1\<close>: a zero vector stays zero.\<close>

definition normalize :: "Vector3 \<Rightarrow> Vector3" where
  "normalize v = divideScalar v (if vlength v = 0 then 1 else vlength v)"

definition add :: "Vector3 \<Rightarrow> Vector3 \<Rightarrow> Vector3" where
  "add a b = Vec (x a + x b) (y a + y b) (z a + z b)"

definition subVectors :: "Vector3 \<Rightarrow> Vector3 \<Rightarrow> Vector3" where
  "subVectors a b = Vec (x a - x b) (y a - y b) (z a - z b)"

definition crossVectors :: "Vector3 \<Rightarrow> Vector3 \<Rightarrow> Vector3" where
  "crossVectors a b =
     Vec (y a * z b - z a * y b) (z a * x b - x a * z b) (x a * y b - y a * x b)"

definition distanceTo :: "Vector3 \<Rightarrow> Vector3 \<Rightarrow> real" where
  "distanceTo a b = vlength (subVectors a b)"

text \<open>\<^verbatim>\<open>Math.atan2\<close> on reals (signed zeros are not distinguished).\<close>

definition atan2 :: "real \<Rightarrow> real \<Rightarrow> real" where
  "atan2 b a =
     (if a > 0 then arctan (b / a)
      else if a < 0 \<and> b \<ge> 0 then arctan (b / a) + pi
      else if a < 0 then arctan (b / a) - pi
      else if b > 0 then pi / 2
      else if b < 0 then - (pi / 2)
      else 0)"

section \<open>SolarSystem: the planet catalog\<close>

record Planet =
  name :: string
  position :: Vector3
  radius :: real
  mass :: real
  color :: string

definition initializePlanets :: "Planet list" where
  "initializePlanets =
    [\<lparr>name = ''Mercury'', position = Vec 5.8 0 0, radius = 0.3, mass = 0.055, color = ''#8C7853''\<rparr>,
     \<lparr>name = ''Venus'', position = Vec 10.8 0 0, radius = 0.6, mass = 0.815, color = ''#FFC649''\<rparr>,
     \<lparr>name = ''Earth'', position = Vec 15 0 0, radius = 0.6, mass = 1.0, color = ''#4A90E2''\<rparr>,
     \<lparr>name = ''Mars'', position = Vec 22.8 0 0, radius = 0.4, mass = 0.107, color = ''#CD5C5C''\<rparr>,
     \<lparr>name = ''Jupiter'', position = Vec 77.8 0 0, radius = 1.5, mass = 317.8, color = ''#C88B3A''\<rparr>,
     \<lparr>name = ''Saturn'', position = Vec 143 0 0, radius = 1.2, mass = 95.2, color = ''#FAD5A5''\<rparr>,
     \<lparr>name = ''Uranus'', position = Vec 287 0 0, radius = 0.8, mass = 14.5, color = ''#4FD0E7''\<rparr>,
     \<lparr>name = ''Neptune'', position = Vec 450 0 0, radius = 0.8, mass = 17.1, color = ''#4166F5''\<rparr>]"

definition getPlanets :: "Planet list" where
  "getPlanets = initializePlanets"

section \<open>ParticleSystem: data\<close>

datatype ParticleType = HYDROGEN | HELIUM | HEAVY_ION | DUST

record Particle =
  position :: Vector3
  velocity :: Vector3
  mass :: real
  charge :: real
  type :: ParticleType
  active :: bool
  deflected :: bool
  age :: real
  energy :: real

definition sunPosition :: Vector3 where
  "sunPosition = Vec 0 0 0"

definition heliopauseRadius :: real where
  "heliopauseRadius = 500"

definition G :: real where
  "G = 0.001"

definition solarWindStrength :: real where
  "solarWindStrength = 0.5"

definition magneticFieldStrength :: real where
  "magneticFieldStrength = 0.3"

subsection \<open>The random source\<close>

text \<open>
  \<^verbatim>\<open>Math.random()\<close> is global state of the host: the sequence of numbers it will
  return, and how many of them have been drawn so far.
\<close>

type_synonym rng = "(nat \<Rightarrow> real) \<times> nat"

definition Math_random :: "rng \<Rightarrow> real \<times> rng" where
  "Math_random g = (fst g (snd g), (fst g, Suc (snd g)))"

subsection \<open>Spawning\<close>

definition createParticle :: "rng \<Rightarrow> Particle \<times> rng" where
  "createParticle g0 =
    (let (rand, g1) = Math_random g0;
         (type', mass', charge', g2) =
            (if rand < 0.90 then (HYDROGEN, 1.0, 1.0, g1)
             else if rand < 0.99 then (HELIUM, 4.0, 2.0, g1)
             else if rand < 0.998 then
               (let (r1, h1) = Math_random g1; (r2, h2) = Math_random h1
                in (HEAVY_ION, 12.0 + r1 * 40, 3.0 + r2 * 10, h2))
             else
               (let (r1, h1) = Math_random g1
                in (DUST, 1000.0 + r1 * 10000, 0, h1)));
         (r3, g3) = Math_random g2;
         theta = r3 * pi * 2;
         (r4, g4) = Math_random g3;
         phi = r4 * pi;
         (r5, g5) = Math_random g4;
         r = heliopauseRadius * (0.95 + r5 * 0.1);
         position' = Vec (r * sin phi * cos theta) (r * sin phi * sin theta) (r * cos phi);
         baseVelocity = normalize (Vec 0.3 (- 0.1) (- 0.4));
         (r6, g6) = Math_random g5;
         velocityMagnitude = 2.0 + r6 * 1.0;
         (r7, g7) = Math_random g6;
         (r8, g8) = Math_random g7;
         (r9, g9) = Math_random g8;
         thermalVelocity = Vec ((r7 - 0.5) * 0.5) ((r8 - 0.5) * 0.5) ((r9 - 0.5) * 0.5);
         velocity' = add (multiplyScalar baseVelocity velocityMagnitude) thermalVelocity;
         energy' = 0.5 * mass' * lengthSq velocity' * 100
     in (\<lparr>position = position', velocity = velocity', mass = mass', charge = charge',
          type = type', active = True, deflected = False, age = 0, energy = energy'\<rparr>, g9))"

subsection \<open>Forces\<close>

definition calculateMagneticField :: "Vector3 \<Rightarrow> Vector3" where
  "calculateMagneticField pos =
    (let r = vlength pos;
         theta = atan2 (z pos) (sqrt (x pos * x pos + y pos * y pos));
         phi = atan2 (y pos) (x pos);
         Br = 0.1 / (r * r + 1);
         Bphi = - 0.05 * sin theta / (r + 1);
         sinPhi = sin phi;
         cosPhi = cos phi;
         sinTheta = sin theta;
         cosTheta = cos theta
     in Vec (Br * sinTheta * cosPhi - Bphi * sinPhi)
            (Br * sinTheta * sinPhi + Bphi * cosPhi)
            (Br * cosTheta))"

text \<open>
  The three numbered blocks of the loop body of \<^verbatim>\<open>update\<close>. Each takes the particle
  and the force accumulated so far and returns the force after the block; a block whose
  guard fails returns the force it was given.
\<close>

definition solarGravity :: "Particle \<Rightarrow> Vector3 \<Rightarrow> Vector3" where
  "solarGravity particle force =
    (let toSun = subVectors sunPosition (position particle);
         distanceToSun = vlength toSun
     in if distanceToSun > 0 then
          (let gravityMagnitude = (G * 1000 * mass particle) / (distanceToSun * distanceToSun);
               gravityForce = multiplyScalar (normalize toSun) gravityMagnitude
           in add force gravityForce)
        else force)"

definition solarWind :: "Particle \<Rightarrow> Vector3 \<Rightarrow> Vector3" where
  "solarWind particle force =
    (let distanceToSun = vlength (subVectors sunPosition (position particle))
     in if distanceToSun > 0 \<and> distanceToSun < heliopauseRadius then
          (let solarWindMagnitude = solarWindStrength / (distanceToSun * distanceToSun + 1);
               solarWindForce = multiplyScalar (normalize (position particle)) solarWindMagnitude
           in add force solarWindForce)
        else force)"

definition lorentzForce :: "Particle \<Rightarrow> Vector3" where
  "lorentzForce particle =
    (let magneticField = calculateMagneticField (position particle)
     in multiplyScalar (crossVectors (velocity particle) magneticField)
          (charge particle * magneticFieldStrength / mass particle))"

text \<open>The third block also sets the sticky \<^verbatim>\<open>deflected\<close> flag of the particle.\<close>

definition magneticDeflection :: "Particle \<Rightarrow> Vector3 \<Rightarrow> Particle \<times> Vector3" where
  "magneticDeflection particle force =
    (let distanceToSun = vlength (subVectors sunPosition (position particle))
     in if charge particle \<noteq> 0 \<and> distanceToSun < heliopauseRadius then
          (if vlength (lorentzForce particle) > 0.1 then particle\<lparr>deflected := True\<rparr>
           else particle,
           add force (lorentzForce particle))
        else (particle, force))"

subsection \<open>Planetary collisions\<close>

record CollisionBody =
  pos :: Vector3
  radius :: real

definition planetPositions :: "CollisionBody list" where
  "planetPositions =
    [\<lparr>pos = Vec 5.8 0 0, radius = 0.5\<rparr>,
     \<lparr>pos = Vec 10.8 0 0, radius = 0.8\<rparr>,
     \<lparr>pos = Vec 15 0 0, radius = 0.8\<rparr>,
     \<lparr>pos = Vec 22.8 0 0, radius = 0.6\<rparr>,
     \<lparr>pos = Vec 77.8 0 0, radius = 2.0\<rparr>,
     \<lparr>pos = Vec 143 0 0, radius = 1.5\<rparr>,
     \<lparr>pos = Vec 287 0 0, radius = 1.0\<rparr>,
     \<lparr>pos = Vec 450 0 0, radius = 1.0\<rparr>]"

fun collidesWithAny :: "Vector3 \<Rightarrow> CollisionBody list \<Rightarrow> bool" where
  "collidesWithAny p [] = False"
| "collidesWithAny p (planet # rest) =
     (if distanceTo p (pos planet) < radius planet then True else collidesWithAny p rest)"

definition checkPlanetaryCollision :: "Vector3 \<Rightarrow> bool" where
  "checkPlanetaryCollision p = collidesWithAny p planetPositions"

subsection \<open>One particle, one frame\<close>

text \<open>The boundary checks and the collision check at the end of the loop body.\<close>

definition checkBoundaries :: "Particle \<Rightarrow> Particle" where
  "checkBoundaries particle =
    (if vlength (position particle) < 2 then particle\<lparr>active := False\<rparr>
     else if vlength (position particle) > heliopauseRadius * 1.2 then particle\<lparr>active := False\<rparr>
     else if age particle > 100 then particle\<lparr>active := False\<rparr>
     else particle)"

definition checkCollision :: "Particle \<Rightarrow> Particle" where
  "checkCollision particle =
    (if checkPlanetaryCollision (position particle) then particle\<lparr>active := False\<rparr>
     else particle)"

text \<open>
  The loop body of \<^verbatim>\<open>update\<close> for a particle that is active: ageing, the three
  forces, acceleration and the move (\<open>advance\<close>), then the checks.
\<close>

definition advance :: "real \<Rightarrow> Particle \<Rightarrow> Particle" where
  "advance dt particle0 =
    (let particle1 = particle0\<lparr>age := age particle0 + dt\<rparr>;
         force0 = Vec 0 0 0;
         force1 = solarGravity particle1 force0;
         force2 = solarWind particle1 force1;
         (particle2, force3) = magneticDeflection particle1 force2;
         acceleration = divideScalar force3 (mass particle2);
         particle3 = particle2\<lparr>velocity := add (velocity particle2) (multiplyScalar acceleration dt)\<rparr>
     in particle3\<lparr>position := add (position particle3) (multiplyScalar (velocity particle3) dt)\<rparr>)"

definition integrate :: "real \<Rightarrow> Particle \<Rightarrow> Particle" where
  "integrate dt particle = checkCollision (checkBoundaries (advance dt particle))"

text \<open>
  The loop of \<^verbatim>\<open>update\<close> over the particle array: an inactive slot is overwritten by a
  freshly created particle (\<^verbatim>\<open>Object.assign\<close> copies all nine fields) and the rest of
  the body is skipped; an active one is integrated.
\<close>

fun updateParticles :: "real \<Rightarrow> Particle list \<Rightarrow> rng \<Rightarrow> Particle list \<times> rng" where
  "updateParticles dt [] g = ([], g)"
| "updateParticles dt (particle # rest) g =
     (if \<not> active particle then
        (let (fresh, g') = createParticle g;
             (rest', g'') = updateParticles dt rest g'
         in (fresh # rest', g''))
      else
        (let (rest', g') = updateParticles dt rest g
         in (integrate dt particle # rest', g')))"

section \<open>ParticleSystem: statistics\<close>

text \<open>
  A statistics object has five numeric fields and two fields that refer to nested
  objects. \<^verbatim>\<open>getStatistics\<close> copies the outer object only, so which objects are shared
  matters: objects live in a store and are named by references.
\<close>

record EnergyDistribution =
  low :: nat
  medium :: nat
  high :: nat

record ParticleTypes =
  hydrogen :: nat
  helium :: nat
  ions :: nat
  dust :: nat

type_synonym ref = nat

record Statistics =
  totalParticles :: nat
  activeParticles :: nat
  deflectedParticles :: nat
  capturedParticles :: nat
  averageVelocity :: real
  energyDistribution :: ref
  particleTypes :: ref

record Heap =
  statsObjects :: "ref \<rightharpoonup> Statistics"
  energyObjects :: "ref \<rightharpoonup> EnergyDistribution"
  typesObjects :: "ref \<rightharpoonup> ParticleTypes"
  nextRef :: ref

definition emptyHeap :: Heap where
  "emptyHeap = \<lparr>statsObjects = Map.empty, energyObjects = Map.empty,
                 typesObjects = Map.empty, nextRef = 0\<rparr>"

definition newStatistics :: "Statistics \<Rightarrow> Heap \<Rightarrow> ref \<times> Heap" where
  "newStatistics v h =
     (nextRef h, h\<lparr>statsObjects := (statsObjects h)(nextRef h \<mapsto> v), nextRef := Suc (nextRef h)\<rparr>)"

definition newEnergyDistribution :: "EnergyDistribution \<Rightarrow> Heap \<Rightarrow> ref \<times> Heap" where
  "newEnergyDistribution v h =
     (nextRef h, h\<lparr>energyObjects := (energyObjects h)(nextRef h \<mapsto> v), nextRef := Suc (nextRef h)\<rparr>)"

definition newParticleTypes :: "ParticleTypes \<Rightarrow> Heap \<Rightarrow> ref \<times> Heap" where
  "newParticleTypes v h =
     (nextRef h, h\<lparr>typesObjects := (typesObjects h)(nextRef h \<mapsto> v), nextRef := Suc (nextRef h)\<rparr>)"

text \<open>The local counters of \<^verbatim>\<open>updateStatistics\<close> and the body of its loop.\<close>

record Tally =
  activeCount :: nat
  deflectedCount :: nat
  capturedCount :: nat
  totalVelocity :: real
  types :: ParticleTypes
  energyCounts :: EnergyDistribution

definition zeroTally :: Tally where
  "zeroTally = \<lparr>activeCount = 0, deflectedCount = 0, capturedCount = 0, totalVelocity = 0,
                 types = \<lparr>hydrogen = 0, helium = 0, ions = 0, dust = 0\<rparr>,
                 energyCounts = \<lparr>low = 0, medium = 0, high = 0\<rparr>\<rparr>"

definition countByType :: "ParticleType \<Rightarrow> ParticleTypes \<Rightarrow> ParticleTypes" where
  "countByType ty c =
     (case ty of
        HYDROGEN \<Rightarrow> c\<lparr>hydrogen := hydrogen c + 1\<rparr>
      | HELIUM \<Rightarrow> c\<lparr>helium := helium c + 1\<rparr>
      | HEAVY_ION \<Rightarrow> c\<lparr>ions := ions c + 1\<rparr>
      | DUST \<Rightarrow> c\<lparr>dust := dust c + 1\<rparr>)"

definition countByEnergy :: "real \<Rightarrow> EnergyDistribution \<Rightarrow> EnergyDistribution" where
  "countByEnergy e c =
     (if e < 100 then c\<lparr>low := low c + 1\<rparr>
      else if e < 1000 then c\<lparr>medium := medium c + 1\<rparr>
      else c\<lparr>high := high c + 1\<rparr>)"

definition countParticle :: "Particle \<Rightarrow> Tally \<Rightarrow> Tally" where
  "countParticle particle t =
     (if active particle then
        t\<lparr>activeCount := activeCount t + 1,
          totalVelocity := totalVelocity t + vlength (velocity particle),
          deflectedCount := (if deflected particle then deflectedCount t + 1 else deflectedCount t),
          types := countByType (type particle) (types t),
          energyCounts := countByEnergy (energy particle) (energyCounts t)\<rparr>
      else t\<lparr>capturedCount := capturedCount t + 1\<rparr>)"

fun countParticles :: "Particle list \<Rightarrow> Tally \<Rightarrow> Tally" where
  "countParticles [] t = t"
| "countParticles (particle # rest) t = countParticles rest (countParticle particle t)"

section \<open>ParticleSystem: the object and its methods\<close>

text \<open>
  The fields of the object, the store its statistics objects live in, and the random
  source of the host. \<^verbatim>\<open>maxParticles\<close> is an integer; the spawning loop
  \<^verbatim>\<open>for (i = 0; i < maxParticles; i++)\<close> does nothing when it is not positive.
\<close>

record ParticleSystem =
  particles :: "Particle list"
  maxParticles :: int
  timeScale :: real
  stats :: ref
  heap :: Heap
  random :: rng

definition updateStatistics :: "ParticleSystem \<Rightarrow> ParticleSystem" where
  "updateStatistics s =
    (let (typesRef, h1) = newParticleTypes (types zeroTally) (heap s);
         (energyRef, h2) = newEnergyDistribution (energyCounts zeroTally) h1;
         t = countParticles (particles s) zeroTally;
         h3 = h2\<lparr>typesObjects := (typesObjects h2)(typesRef \<mapsto> types t),
                 energyObjects := (energyObjects h2)(energyRef \<mapsto> energyCounts t)\<rparr>;
         (statsRef, h4) = newStatistics
            \<lparr>totalParticles = length (particles s),
             activeParticles = activeCount t,
             deflectedParticles = deflectedCount t,
             capturedParticles = capturedCount t,
             averageVelocity = (if activeCount t > 0 then totalVelocity t / real (activeCount t) else 0),
             energyDistribution = energyRef,
             particleTypes = typesRef\<rparr> h3
     in s\<lparr>stats := statsRef, heap := h4\<rparr>)"

fun spawn :: "nat \<Rightarrow> rng \<Rightarrow> Particle list \<times> rng" where
  "spawn 0 g = ([], g)"
| "spawn (Suc n) g =
     (let (particle, g') = createParticle g;
          (rest, g'') = spawn n g'
      in (particle # rest, g''))"

definition initializeParticles :: "ParticleSystem \<Rightarrow> ParticleSystem" where
  "initializeParticles s =
    (let (ps, g) = spawn (nat (maxParticles s)) (random s)
     in updateStatistics (s\<lparr>particles := ps, random := g\<rparr>))"

text \<open>
  Construction: the field initialisers (an all-zero statistics object with its two nested
  objects, time scale 1, no particles), then \<^verbatim>\<open>initializeParticles\<close>.
\<close>

definition constructor :: "int \<Rightarrow> rng \<Rightarrow> ParticleSystem" where
  "constructor maxParticles' g =
    (let (energyRef, h1) = newEnergyDistribution \<lparr>low = 0, medium = 0, high = 0\<rparr> emptyHeap;
         (typesRef, h2) = newParticleTypes \<lparr>hydrogen = 0, helium = 0, ions = 0, dust = 0\<rparr> h1;
         (statsRef, h3) = newStatistics
            \<lparr>totalParticles = 0, activeParticles = 0, deflectedParticles = 0,
             capturedParticles = 0, averageVelocity = 0,
             energyDistribution = energyRef, particleTypes = typesRef\<rparr> h2
     in initializeParticles
          \<lparr>particles = [], maxParticles = maxParticles', timeScale = 1,
           stats = statsRef, heap = h3, random = g\<rparr>)"

definition update :: "real \<Rightarrow> ParticleSystem \<Rightarrow> ParticleSystem" where
  "update deltaTime s =
    (let dt = deltaTime * timeScale s;
         (ps, g) = updateParticles dt (particles s) (random s)
     in updateStatistics (s\<lparr>particles := ps, random := g\<rparr>))"

definition setTimeScale :: "real \<Rightarrow> ParticleSystem \<Rightarrow> ParticleSystem" where
  "setTimeScale scale s = s\<lparr>timeScale := scale\<rparr>"

definition reset :: "ParticleSystem \<Rightarrow> ParticleSystem" where
  "reset s = initializeParticles s"

text \<open>\<^verbatim>\<open>{ ...this.stats }\<close>: a new outer object with the same seven field values.\<close>

definition getStatistics :: "ParticleSystem \<Rightarrow> (ref \<times> ParticleSystem) option" where
  "getStatistics s =
    (case statsObjects (heap s) (stats s) of
       None \<Rightarrow> None
     | Some v \<Rightarrow> (let (r, h) = newStatistics v (heap s) in Some (r, s\<lparr>heap := h\<rparr>)))"

text \<open>The two buffers: three consecutive entries per particle, in array order.\<close>

definition positionTriplet :: "Particle \<Rightarrow> real list" where
  "positionTriplet particle =
     [x (position particle), y (position particle), z (position particle)]"

definition getPositions :: "ParticleSystem \<Rightarrow> real list" where
  "getPositions s = concat (map positionTriplet (particles s))"

definition colorTriplet :: "Particle \<Rightarrow> real list" where
  "colorTriplet particle =
    (let (r, g, b) =
       (if \<not> active particle then (0, 0, 0)
        else
          (let (r, g, b) =
             (case type particle of
                HYDROGEN \<Rightarrow> (0.4, 0.5, 0.9)
              | HELIUM \<Rightarrow> (0.9, 0.3, 0.6)
              | HEAVY_ION \<Rightarrow> (0.1, 0.9, 0.5)
              | DUST \<Rightarrow> (1.0, 0.6, 0.1))
           in if deflected particle then (r * 1.2, g * 1.2, b * 1.2) else (r, g, b)))
     in [r, g, b])"

definition getColors :: "ParticleSystem \<Rightarrow> real list" where
  "getColors s = concat (map colorTriplet (particles s))"

subsection \<open>Sequences of calls\<close>

datatype Call = Update real | Reset | SetTimeScale real

fun call :: "Call \<Rightarrow> ParticleSystem \<Rightarrow> ParticleSystem" where
  "call (Update deltaTime) s = update deltaTime s"
| "call Reset s = reset s"
| "call (SetTimeScale scale) s = setTimeScale scale s"

fun calls :: "Call list \<Rightarrow> ParticleSystem \<Rightarrow> ParticleSystem" where
  "calls [] s = s"
| "calls (c # cs) s = calls cs (call c s)"

subsection \<open>Reading and writing through a snapshot\<close>

text \<open>
  What the holder of a reference returned by \<^verbatim>\<open>getStatistics\<close> sees when reading all
  of it, nested objects included.
\<close>

record StatisticsValue =
  total :: nat
  activeN :: nat
  deflectedN :: nat
  capturedN :: nat
  average :: real
  energies :: EnergyDistribution
  typeCounts :: ParticleTypes

definition readStatistics :: "Heap \<Rightarrow> ref \<Rightarrow> StatisticsValue option" where
  "readStatistics h r =
    (case statsObjects h r of
       None \<Rightarrow> None
     | Some v \<Rightarrow>
        (case (energyObjects h (energyDistribution v), typesObjects h (particleTypes v)) of
           (Some e, Some t) \<Rightarrow>
             Some \<lparr>total = totalParticles v, activeN = activeParticles v,
                   deflectedN = deflectedParticles v, capturedN = capturedParticles v,
                   average = averageVelocity v, energies = e, typeCounts = t\<rparr>
         | _ \<Rightarrow> None))"

text \<open>
  What the holder can assign: a field of the outer object (\<^verbatim>\<open>snap.f = v\<close>), or a field
  of one of the nested objects (\<^verbatim>\<open>snap.energyDistribution.f = v\<close>,
  \<^verbatim>\<open>snap.particleTypes.f = v\<close>).
\<close>

datatype Assignment =
    Outer "Statistics \<Rightarrow> Statistics"
  | InEnergyDistribution "EnergyDistribution \<Rightarrow> EnergyDistribution"
  | InParticleTypes "ParticleTypes \<Rightarrow> ParticleTypes"

definition assign :: "ref \<Rightarrow> Assignment \<Rightarrow> Heap \<Rightarrow> Heap" where
  "assign r a h =
    (case statsObjects h r of
       None \<Rightarrow> h
     | Some v \<Rightarrow>
        (case a of
           Outer f \<Rightarrow> h\<lparr>statsObjects := (statsObjects h)(r \<mapsto> f v)\<rparr>
         | InEnergyDistribution f \<Rightarrow>
             (case energyObjects h (energyDistribution v) of
                None \<Rightarrow> h
              | Some e \<Rightarrow> h\<lparr>energyObjects := (energyObjects h)(energyDistribution v \<mapsto> f e)\<rparr>)
         | InParticleTypes f \<Rightarrow>
             (case typesObjects h (particleTypes v) of
                None \<Rightarrow> h
              | Some t \<Rightarrow> h\<lparr>typesObjects := (typesObjects h)(particleTypes v \<mapsto> f t)\<rparr>)))"

section \<open>Notions used to state the properties\<close>

text \<open>What a caller of \<^verbatim>\<open>getStatistics()\<close> reads from the object it gets back.\<close>

definition snapshot :: "ParticleSystem \<Rightarrow> StatisticsValue option" where
  "snapshot s =
    (case getStatistics s of
       None \<Rightarrow> None
     | Some (r, s') \<Rightarrow> readStatistics (heap s') r)"

definition typesTotal :: "ParticleTypes \<Rightarrow> nat" where
  "typesTotal c = hydrogen c + helium c + ions c + dust c"

text \<open>The statistics that \<^verbatim>\<open>updateStatistics\<close> computes from a particle array.\<close>

definition tallyValue :: "Particle list \<Rightarrow> StatisticsValue" where
  "tallyValue ps =
    (let t = countParticles ps zeroTally
     in \<lparr>total = length ps, activeN = activeCount t, deflectedN = deflectedCount t,
         capturedN = capturedCount t,
         average = (if activeCount t > 0 then totalVelocity t / real (activeCount t) else 0),
         energies = energyCounts t, typeCounts = types t\<rparr>)"

definition statsCurrent :: "ParticleSystem \<Rightarrow> bool" where
  "statsCurrent s \<longleftrightarrow> readStatistics (heap s) (stats s) = Some (tallyValue (particles s))"

text \<open>
  The four conditions under which the loop body clears \<^verbatim>\<open>active\<close>: captured by the
  sun, left the simulation, too old, hit a planet.
\<close>

definition deactivationCause :: "Particle \<Rightarrow> bool" where
  "deactivationCause p \<longleftrightarrow>
     vlength (position p) < 2 \<or> vlength (position p) > heliopauseRadius * 1.2
     \<or> age p > 100 \<or> checkPlanetaryCollision (position p)"

definition causeKnown :: "ParticleSystem \<Rightarrow> bool" where
  "causeKnown s \<longleftrightarrow> list_all (\<lambda>p. active p \<or> deactivationCause p) (particles s)"

text \<open>The current statistics object was allocated before the next free reference.\<close>

definition allocated :: "ParticleSystem \<Rightarrow> bool" where
  "allocated s \<longleftrightarrow> stats s < nextRef (heap s)"

text \<open>The assignment \<^verbatim>\<open>snap.particleTypes.hydrogen = n\<close>.\<close>

definition setHydrogen :: "nat \<Rightarrow> ParticleTypes \<Rightarrow> ParticleTypes" where
  "setHydrogen n t = t\<lparr>hydrogen := n\<rparr>"

subsection \<open>Concrete inputs\<close>

text \<open>A random source that always returns 0.\<close>

definition zeroSource :: rng where
  "zeroSource = (\<lambda>_. 0, 0)"

text \<open>A hydrogen particle at distance 1000 from the sun, flying towards it.\<close>

definition farParticle :: Particle where
  "farParticle = \<lparr>position = Vec 1000 0 0, velocity = Vec (- 500) 0 0, mass = 1, charge = 1,
     type = HYDROGEN, active = True, deflected = False, age = 0, energy = 12500000\<rparr>"

definition farSystem :: ParticleSystem where
  "farSystem = \<lparr>particles = [farParticle], maxParticles = 1, timeScale = 1,
     stats = 0, heap = emptyHeap, random = zeroSource\<rparr>"

text \<open>A hydrogen particle at distance 1000 from the sun, flying away from it.\<close>

definition driftingParticle :: Particle where
  "driftingParticle = \<lparr>position = Vec 1000 0 0, velocity = Vec 3 0 0, mass = 1, charge = 1,
     type = HYDROGEN, active = True, deflected = False, age = 0, energy = 450\<rparr>"

definition driftingSystem :: ParticleSystem where
  "driftingSystem = \<lparr>particles = [driftingParticle], maxParticles = 1, timeScale = 1,
     stats = 0, heap = emptyHeap, random = zeroSource\<rparr>"

text \<open>A dust particle placed exactly at the origin, with speed 3.\<close>

definition originParticle :: Particle where
  "originParticle = \<lparr>position = Vec 0 0 0, velocity = Vec 3 0 0, mass = 1000, charge = 0,
     type = DUST, active = True, deflected = False, age = 0, energy = 450000\<rparr>"

definition originSystem :: ParticleSystem where
  "originSystem = \<lparr>particles = [originParticle], maxParticles = 1, timeScale = 1,
     stats = 0, heap = emptyHeap, random = zeroSource\<rparr>"

text \<open>A helium particle at rest whose \<^verbatim>\<open>deflected\<close> flag is set.\<close>

definition deflectedHelium :: Particle where
  "deflectedHelium = \<lparr>position = Vec 100 0 0, velocity = Vec 0 0 0, mass = 4, charge = 2,
     type = HELIUM, active = True, deflected = True, age = 0, energy = 0\<rparr>"

definition paletteSystem :: ParticleSystem where
  "paletteSystem = \<lparr>particles = [farParticle, deflectedHelium], maxParticles = 2, timeScale = 1,
     stats = 0, heap = emptyHeap, random = zeroSource\<rparr>"

section \<open>Auxiliary facts\<close>

subsection \<open>Vectors\<close>

lemma Vec_sel: "x (Vec a b c) = a" "y (Vec a b c) = b" "z (Vec a b c) = c"
  by (simp_all add: Vec_def)

lemma vlength_axis: "vlength (Vec a 0 0) = \<bar>a\<bar>"
  by (simp add: vlength_def Vec_sel)

lemma vlength_origin: "vlength (Vec 0 0 0) = 0"
  by (simp add: vlength_def Vec_sel)

lemma distanceTo_axis: "distanceTo (Vec a 0 0) (Vec b 0 0) = \<bar>a - b\<bar>"
  by (simp add: distanceTo_def subVectors_def Vec_sel vlength_axis)

lemma add_zero_left: "add (Vec 0 0 0) v = v"
  by (simp add: add_def Vec_def)

lemma vlength_nonneg: "0 \<le> vlength v"
  by (simp add: vlength_def)

lemma vlength_multiplyScalar: "vlength (multiplyScalar v k) = \<bar>k\<bar> * vlength v"
proof -
  have "x v * k * (x v * k) + y v * k * (y v * k) + z v * k * (z v * k)
      = (k * k) * (x v * x v + y v * y v + z v * z v)"
    by (simp add: algebra_simps)
  then show ?thesis
    by (simp add: vlength_def multiplyScalar_def Vec_sel real_sqrt_mult)
qed

lemma sqrt_triangle3:
  fixes a b c d e f :: real
  shows "sqrt ((a + d) * (a + d) + (b + e) * (b + e) + (c + f) * (c + f))
       \<le> sqrt (a * a + b * b + c * c) + sqrt (d * d + e * e + f * f)"
proof -
  let ?A = "sqrt (a\<^sup>2 + b\<^sup>2)" and ?D = "sqrt (d\<^sup>2 + e\<^sup>2)"
  let ?P = "sqrt ((a + d)\<^sup>2 + (b + e)\<^sup>2)"
  have P: "?P \<le> ?A + ?D" by (rule real_sqrt_sum_squares_triangle_ineq)
  have P0: "0 \<le> ?P" by simp
  have "?P\<^sup>2 \<le> (?A + ?D)\<^sup>2"
    using P P0 by (rule power_mono)
  then have "sqrt (?P\<^sup>2 + (c + f)\<^sup>2) \<le> sqrt ((?A + ?D)\<^sup>2 + (c + f)\<^sup>2)"
    by simp
  also have "\<dots> \<le> sqrt (?A\<^sup>2 + c\<^sup>2) + sqrt (?D\<^sup>2 + f\<^sup>2)"
    by (rule real_sqrt_sum_squares_triangle_ineq)
  finally show ?thesis
    by (simp add: power2_eq_square)
qed

lemma vlength_add_le: "vlength (add u w) \<le> vlength u + vlength w"
  by (simp add: vlength_def add_def Vec_sel sqrt_triangle3)

lemma vlength_add_ge: "vlength u - vlength w \<le> vlength (add u w)"
proof -
  have "sqrt (((x u + x w) + - x w) * ((x u + x w) + - x w)
            + ((y u + y w) + - y w) * ((y u + y w) + - y w)
            + ((z u + z w) + - z w) * ((z u + z w) + - z w))
      \<le> sqrt ((x u + x w) * (x u + x w) + (y u + y w) * (y u + y w) + (z u + z w) * (z u + z w))
        + sqrt (- x w * - x w + - y w * - y w + - z w * - z w)"
    by (rule sqrt_triangle3)
  then show ?thesis
    by (simp add: vlength_def add_def Vec_sel)
qed

lemma vlength_toSun: "vlength (subVectors sunPosition v) = vlength v"
  by (simp add: vlength_def subVectors_def sunPosition_def Vec_sel)

lemma vlength_normalize: "vlength v \<noteq> 0 \<Longrightarrow> vlength (normalize v) = 1"
  by (simp add: normalize_def divideScalar_def vlength_multiplyScalar vlength_nonneg)

subsection \<open>Spawning\<close>

text \<open>
  A created particle is active, not deflected and of age 0; the sequence behind the
  random source is never replaced; when the source returns non-negative numbers the mass is
  at least 1.
\<close>

lemma createParticle_fresh:
  "active (fst (createParticle g))" "\<not> deflected (fst (createParticle g))"
  "age (fst (createParticle g)) = 0"
  by (simp_all add: createParticle_def Let_def split_def)

lemma createParticle_source: "fst (snd (createParticle g)) = fst g"
  by (simp add: createParticle_def Let_def split_def Math_random_def)

lemma createParticle_mass:
  assumes "\<And>k. 0 \<le> fst g k"
  shows "1 \<le> mass (fst (createParticle g))"
proof -
  have "0 \<le> fst g (Suc (snd g))" by (rule assms)
  then show ?thesis
    by (simp add: createParticle_def Let_def split_def Math_random_def)
qed

lemma createParticle_zeroSource:
  "type (fst (createParticle zeroSource)) = HYDROGEN"
  by (simp add: createParticle_def zeroSource_def Math_random_def Let_def split_def)

lemma spawn_length: "length (fst (spawn n g)) = n"
  by (induction n arbitrary: g) (simp_all add: split_def Let_def)

lemma spawn_active: "list_all active (fst (spawn n g))"
  by (induction n arbitrary: g) (simp_all add: split_def Let_def createParticle_fresh)

lemma spawn_source: "fst (snd (spawn n g)) = fst g"
  by (induction n arbitrary: g) (simp_all add: split_def Let_def createParticle_source)

lemma spawn_mass:
  assumes "\<And>k. 0 \<le> fst g k"
  shows "list_all (\<lambda>p. 1 \<le> mass p) (fst (spawn n g))"
  using assms
proof (induction n arbitrary: g)
  case 0
  then show ?case by simp
next
  case (Suc n)
  have "\<And>k. 0 \<le> fst (snd (createParticle g)) k"
    using Suc.prems by (simp add: createParticle_source)
  with Suc show ?case
    by (simp add: split_def Let_def createParticle_mass)
qed

subsection \<open>The loop body\<close>

text \<open>
  What the blocks of the loop body change and what they leave alone; the body
  deactivates a particle only for one of the four causes.
\<close>

lemma magneticDeflection_fields:
  "position (fst (magneticDeflection p f)) = position p"
  "velocity (fst (magneticDeflection p f)) = velocity p"
  "age (fst (magneticDeflection p f)) = age p"
  "mass (fst (magneticDeflection p f)) = mass p"
  "active (fst (magneticDeflection p f)) = active p"
  by (simp_all add: magneticDeflection_def Let_def)

lemma checkBoundaries_fields:
  "position (checkBoundaries p) = position p"
  "velocity (checkBoundaries p) = velocity p"
  "age (checkBoundaries p) = age p"
  "deflected (checkBoundaries p) = deflected p"
  by (simp_all add: checkBoundaries_def)

lemma checkCollision_fields:
  "position (checkCollision p) = position p"
  "velocity (checkCollision p) = velocity p"
  "age (checkCollision p) = age p"
  "deflected (checkCollision p) = deflected p"
  by (simp_all add: checkCollision_def)

lemma checks_cause:
  "active (checkCollision (checkBoundaries p)) \<or> \<not> active p
     \<or> deactivationCause (checkCollision (checkBoundaries p))"
  by (auto simp add: checkCollision_def checkBoundaries_def deactivationCause_def)

lemma advance_active: "active (advance dt p) = active p"
  by (simp add: advance_def Let_def split_def magneticDeflection_fields)

lemma advance_age: "age (advance dt p) = age p + dt"
  by (simp add: advance_def Let_def split_def magneticDeflection_fields)

lemma position_integrate: "position (integrate dt p) = position (advance dt p)"
  by (simp add: integrate_def checkCollision_fields checkBoundaries_fields)

lemma integrate_cause:
  "active p \<Longrightarrow> active (integrate dt p) \<or> deactivationCause (integrate dt p)"
  using checks_cause [of "advance dt p"] by (simp add: integrate_def advance_active)

lemma integrate_aged: "age p + dt > 100 \<Longrightarrow> \<not> active (integrate dt p)"
  by (simp add: integrate_def checkCollision_def checkBoundaries_def advance_age)

lemma integrate_escaped:
  "vlength (position (advance dt p)) > heliopauseRadius * 1.2 \<Longrightarrow> \<not> active (integrate dt p)"
  by (simp add: integrate_def checkCollision_def checkBoundaries_def)

lemma integrate_captured:
  "vlength (position (advance dt p)) < 2 \<Longrightarrow> \<not> active (integrate dt p)"
  by (simp add: integrate_def checkCollision_def checkBoundaries_def)

lemma integrate_deflected: "deflected p \<Longrightarrow> deflected (integrate dt p)"
  by (simp add: integrate_def checkCollision_fields checkBoundaries_fields advance_def
        Let_def split_def magneticDeflection_def)

lemma integrate_mass: "mass (integrate dt p) = mass p"
  by (simp add: integrate_def checkCollision_def checkBoundaries_def advance_def Let_def
        split_def magneticDeflection_fields)

subsection \<open>A particle at the origin\<close>

lemma solarGravity_origin: "position p = Vec 0 0 0 \<Longrightarrow> solarGravity p force = force"
  by (simp add: solarGravity_def sunPosition_def subVectors_def Vec_sel vlength_origin)

lemma solarWind_origin: "position p = Vec 0 0 0 \<Longrightarrow> solarWind p force = force"
  by (simp add: solarWind_def sunPosition_def subVectors_def Vec_sel vlength_origin)

lemma calculateMagneticField_origin: "calculateMagneticField (Vec 0 0 0) = Vec 0 0 0.1"
  by (simp add: calculateMagneticField_def vlength_origin Vec_sel atan2_def)

lemma advance_origin:
  assumes "position p = Vec 0 0 0"
  shows "velocity (advance dt p)
       = add (velocity p)
           (multiplyScalar
              (divideScalar (if charge p \<noteq> 0 then lorentzForce p else Vec 0 0 0) (mass p)) dt)"
    and "position (advance dt p) = multiplyScalar (velocity (advance dt p)) dt"
  using assms
  by (simp_all add: advance_def Let_def split_def solarGravity_origin solarWind_origin
        magneticDeflection_def sunPosition_def subVectors_def Vec_sel vlength_origin
        heliopauseRadius_def add_zero_left lorentzForce_def)

subsection \<open>A particle outside the heliopause\<close>

text \<open>
  Outside the heliopause only gravity acts. At distance 1000 the acceleration has
  magnitude \<open>1 / 1000000\<close>, which bounds how far one step can bring the particle back.
\<close>

lemma advance_outside:
  assumes "heliopauseRadius \<le> vlength (position p)"
  shows "velocity (advance dt p)
       = add (velocity p)
           (multiplyScalar
              (divideScalar
                 (multiplyScalar (normalize (subVectors sunPosition (position p)))
                    (G * 1000 * mass p / (vlength (position p) * vlength (position p))))
                 (mass p)) dt)"
    and "position (advance dt p) = add (position p) (multiplyScalar (velocity (advance dt p)) dt)"
proof -
  have d: "0 < vlength (position p)" "\<not> vlength (position p) < heliopauseRadius"
    using assms by (simp_all add: heliopauseRadius_def)
  show "velocity (advance dt p)
       = add (velocity p)
           (multiplyScalar
              (divideScalar
                 (multiplyScalar (normalize (subVectors sunPosition (position p)))
                    (G * 1000 * mass p / (vlength (position p) * vlength (position p))))
                 (mass p)) dt)"
    using d
    by (simp add: advance_def Let_def solarGravity_def solarWind_def magneticDeflection_def
          vlength_toSun add_zero_left)
  show "position (advance dt p) = add (position p) (multiplyScalar (velocity (advance dt p)) dt)"
    by (simp add: advance_def Let_def split_def magneticDeflection_fields)
qed

lemma far_particle_speed:
  assumes "vlength (position p) = 1000" and "0 < mass p"
  shows "vlength (velocity (advance dt p)) \<le> vlength (velocity p) + \<bar>dt\<bar> / 1000000"
proof -
  have h: "heliopauseRadius \<le> vlength (position p)"
    using assms(1) by (simp add: heliopauseRadius_def)
  have n: "vlength (normalize (subVectors sunPosition (position p))) = 1"
    using assms(1) by (simp add: vlength_normalize vlength_toSun)
  let ?a = "multiplyScalar
              (divideScalar
                 (multiplyScalar (normalize (subVectors sunPosition (position p)))
                    (G * 1000 * mass p / (vlength (position p) * vlength (position p))))
                 (mass p)) dt"
  have "vlength ?a = \<bar>dt\<bar> / 1000000"
    using assms by (simp add: vlength_multiplyScalar divideScalar_def n G_def)
  moreover have "vlength (add (velocity p) ?a) \<le> vlength (velocity p) + vlength ?a"
    by (rule vlength_add_le)
  ultimately have "vlength (add (velocity p) ?a) \<le> vlength (velocity p) + \<bar>dt\<bar> / 1000000"
    by (simp only:)
  then show ?thesis
    by (simp only: advance_outside(1) [OF h])
qed

lemma far_particle_distance:
  assumes "vlength (position p) = 1000" and "0 < mass p"
  shows "1000 - \<bar>dt\<bar> * (vlength (velocity p) + \<bar>dt\<bar> / 1000000)
       \<le> vlength (position (advance dt p))"
proof -
  have h: "heliopauseRadius \<le> vlength (position p)"
    using assms(1) by (simp add: heliopauseRadius_def)
  have "vlength (position p) - vlength (multiplyScalar (velocity (advance dt p)) dt)
      \<le> vlength (position (advance dt p))"
    by (simp add: advance_outside(2) [OF h] vlength_add_ge)
  moreover have "\<bar>dt\<bar> * vlength (velocity (advance dt p))
      \<le> \<bar>dt\<bar> * (vlength (velocity p) + \<bar>dt\<bar> / 1000000)"
    using far_particle_speed [OF assms] by (simp add: mult_left_mono)
  ultimately show ?thesis
    using assms(1) by (simp add: vlength_multiplyScalar)
qed

subsection \<open>The loop body on the concrete particles\<close>

lemma advance_far: "advance 1 farParticle
   = farParticle\<lparr>age := 1, velocity := Vec (- 500.000001) 0 0, position := Vec 499.999999 0 0\<rparr>"
  by (simp add: advance_def farParticle_def Let_def solarGravity_def solarWind_def
        magneticDeflection_def sunPosition_def subVectors_def Vec_sel vlength_axis
        heliopauseRadius_def G_def normalize_def divideScalar_def multiplyScalar_def add_def)

lemma advance_drifting: "advance 1 driftingParticle
   = driftingParticle\<lparr>age := 1, velocity := Vec 2.999999 0 0, position := Vec 1002.999999 0 0\<rparr>"
  by (simp add: advance_def driftingParticle_def Let_def solarGravity_def solarWind_def
        magneticDeflection_def sunPosition_def subVectors_def Vec_sel vlength_axis
        heliopauseRadius_def G_def normalize_def divideScalar_def multiplyScalar_def add_def)

lemma integrate_origin_half: "integrate (1 / 2) originParticle
   = originParticle\<lparr>age := 1 / 2, position := Vec (3 / 2) 0 0, active := False\<rparr>"
  by (simp add: integrate_def advance_def originParticle_def Let_def solarGravity_def
        solarWind_def magneticDeflection_def sunPosition_def subVectors_def Vec_sel vlength_axis
        vlength_origin heliopauseRadius_def divideScalar_def multiplyScalar_def add_def
        checkBoundaries_def checkCollision_def checkPlanetaryCollision_def planetPositions_def
        distanceTo_axis)

lemma integrate_origin_one: "integrate 1 originParticle
   = originParticle\<lparr>age := 1, position := Vec 3 0 0\<rparr>"
  by (simp add: integrate_def advance_def originParticle_def Let_def solarGravity_def
        solarWind_def magneticDeflection_def sunPosition_def subVectors_def Vec_sel vlength_axis
        vlength_origin heliopauseRadius_def divideScalar_def multiplyScalar_def add_def
        checkBoundaries_def checkCollision_def checkPlanetaryCollision_def planetPositions_def
        distanceTo_axis)

subsection \<open>The loop over the array\<close>

lemma updateParticles_length: "length (fst (updateParticles dt ps g)) = length ps"
  by (induction ps arbitrary: g) (simp_all add: split_def Let_def)

lemma updateParticles_source: "fst (snd (updateParticles dt ps g)) = fst g"
  by (induction ps arbitrary: g) (simp_all add: split_def Let_def createParticle_source)

lemma updateParticles_inactive:
  "i < length ps \<Longrightarrow> \<not> active (ps ! i) \<Longrightarrow>
     \<exists>k. fst (updateParticles dt ps g) ! i = fst (createParticle (fst g, k))"
proof (induction ps arbitrary: i g)
  case Nil
  then show ?case by simp
next
  case (Cons p ps)
  show ?case
  proof (cases i)
    case 0
    with Cons.prems have "fst (updateParticles dt (p # ps) g) ! i = fst (createParticle (fst g, snd g))"
      by (simp add: split_def Let_def)
    then show ?thesis by blast
  next
    case (Suc j)
    with Cons.prems have j: "j < length ps" "\<not> active (ps ! j)" by simp_all
    show ?thesis
    proof (cases "active p")
      case True
      from Cons.IH [OF j, of g] Suc True show ?thesis by (simp add: split_def Let_def)
    next
      case False
      from Cons.IH [OF j, of "snd (createParticle g)"] Suc False show ?thesis
        by (simp add: split_def Let_def createParticle_source)
    qed
  qed
qed

lemma updateParticles_active:
  "i < length ps \<Longrightarrow> active (ps ! i) \<Longrightarrow>
     fst (updateParticles dt ps g) ! i = integrate dt (ps ! i)"
proof (induction ps arbitrary: i g)
  case Nil
  then show ?case by simp
next
  case (Cons p ps)
  show ?case
  proof (cases i)
    case 0
    with Cons.prems show ?thesis by (simp add: split_def Let_def)
  next
    case (Suc j)
    with Cons.prems have j: "j < length ps" "active (ps ! j)" by simp_all
    from Cons.IH [OF j] Suc show ?thesis by (simp add: split_def Let_def)
  qed
qed

lemma updateParticles_cause:
  "list_all (\<lambda>p. active p \<or> deactivationCause p) (fst (updateParticles dt ps g))"
  by (induction ps arbitrary: g)
     (simp_all add: split_def Let_def createParticle_fresh integrate_cause)

lemma updateParticles_mass:
  assumes "\<And>k. 0 \<le> fst g k" and "list_all (\<lambda>p. 1 \<le> mass p) ps"
  shows "list_all (\<lambda>p. 1 \<le> mass p) (fst (updateParticles dt ps g))"
  using assms
proof (induction ps arbitrary: g)
  case Nil
  then show ?case by simp
next
  case (Cons p ps)
  have "\<And>k. 0 \<le> fst (snd (createParticle g)) k"
    using Cons.prems(1) by (simp add: createParticle_source)
  with Cons show ?case
    by (simp add: split_def Let_def createParticle_mass integrate_mass)
qed

subsection \<open>Counting\<close>

lemma typesTotal_countByType: "typesTotal (countByType ty c) = Suc (typesTotal c)"
  by (cases ty) (simp_all add: countByType_def typesTotal_def)

lemma countParticles_active:
  "activeCount (countParticles ps t) = activeCount t + length (filter active ps)"
  by (induction ps arbitrary: t) (simp_all add: countParticle_def)

lemma countParticles_captured:
  "capturedCount (countParticles ps t) = capturedCount t + length (filter (\<lambda>p. \<not> active p) ps)"
  by (induction ps arbitrary: t) (simp_all add: countParticle_def)

lemma countParticles_deflected:
  "deflectedCount (countParticles ps t)
     = deflectedCount t + length (filter (\<lambda>p. active p \<and> deflected p) ps)"
  by (induction ps arbitrary: t) (simp_all add: countParticle_def)

lemma countParticles_types:
  "typesTotal (types (countParticles ps t)) = typesTotal (types t) + length (filter active ps)"
  by (induction ps arbitrary: t) (simp_all add: countParticle_def typesTotal_countByType)

lemma read_updateStatistics:
  "readStatistics (heap (updateStatistics s)) (stats (updateStatistics s))
     = Some (tallyValue (particles s))"
  by (simp add: updateStatistics_def readStatistics_def tallyValue_def Let_def
        newParticleTypes_def newEnergyDistribution_def newStatistics_def)

lemma particles_updateStatistics: "particles (updateStatistics s) = particles s"
  by (simp add: updateStatistics_def Let_def split_def)

lemma updateStatistics_fields:
  "particles (updateStatistics s) = particles s"
  "maxParticles (updateStatistics s) = maxParticles s"
  "timeScale (updateStatistics s) = timeScale s"
  "random (updateStatistics s) = random s"
  by (simp_all add: updateStatistics_def Let_def split_def)

lemma snapshot_read: "snapshot s = readStatistics (heap s) (stats s)"
  by (auto simp add: snapshot_def getStatistics_def readStatistics_def newStatistics_def
        split: option.splits)

lemma statsCurrent_updateStatistics: "statsCurrent (updateStatistics s)"
  by (simp add: statsCurrent_def read_updateStatistics particles_updateStatistics)

lemma allocated_updateStatistics: "allocated (updateStatistics s)"
  by (simp add: allocated_def updateStatistics_def Let_def newParticleTypes_def
        newEnergyDistribution_def newStatistics_def)

subsection \<open>The methods\<close>

lemma particles_update:
  "particles (update deltaTime s)
     = fst (updateParticles (deltaTime * timeScale s) (particles s) (random s))"
  by (simp add: update_def Let_def split_def updateStatistics_fields)

lemma particles_initializeParticles:
  "particles (initializeParticles s) = fst (spawn (nat (maxParticles s)) (random s))"
  by (simp add: initializeParticles_def Let_def split_def updateStatistics_fields)

lemma particles_constructor: "particles (constructor n g) = fst (spawn (nat n) g)"
  by (simp add: constructor_def Let_def split_def particles_initializeParticles)

lemma maxParticles_call: "maxParticles (call c s) = maxParticles s"
  by (cases c)
     (simp_all add: update_def reset_def initializeParticles_def setTimeScale_def Let_def
        split_def updateStatistics_fields)

lemma maxParticles_constructor: "maxParticles (constructor n g) = n"
  by (simp add: constructor_def initializeParticles_def Let_def split_def
        updateStatistics_fields)

lemma length_particles_call:
  "length (particles s) = nat (maxParticles s)
     \<Longrightarrow> length (particles (call c s)) = nat (maxParticles s)"
  by (cases c)
     (simp_all add: particles_update updateParticles_length reset_def
        particles_initializeParticles spawn_length setTimeScale_def)

lemma source_call: "fst (random (call c s)) = fst (random s)"
  by (cases c)
     (simp_all add: update_def reset_def initializeParticles_def setTimeScale_def Let_def
        split_def updateStatistics_fields updateParticles_source spawn_source)

lemma source_constructor: "fst (random (constructor n g)) = fst g"
  by (simp add: constructor_def initializeParticles_def Let_def split_def
        updateStatistics_fields spawn_source)

subsection \<open>States reachable from the constructor\<close>

text \<open>
  Each of these holds after construction and is kept by every call.
\<close>

lemma statsCurrent_call: "statsCurrent s \<Longrightarrow> statsCurrent (call c s)"
  by (cases c)
     (simp_all add: update_def reset_def initializeParticles_def setTimeScale_def split_def
        Let_def statsCurrent_updateStatistics, simp add: statsCurrent_def)

lemma statsCurrent_calls: "statsCurrent s \<Longrightarrow> statsCurrent (calls cs s)"
  by (induction cs arbitrary: s) (simp_all add: statsCurrent_call)

lemma statsCurrent_constructor: "statsCurrent (constructor n g)"
  by (simp add: constructor_def initializeParticles_def split_def Let_def
        statsCurrent_updateStatistics)

lemma statsCurrent_reachable: "statsCurrent (calls cs (constructor n g))"
  by (rule statsCurrent_calls [OF statsCurrent_constructor])

lemma snapshot_reachable:
  "snapshot (calls cs (constructor n g)) = Some (tallyValue (particles (calls cs (constructor n g))))"
  using statsCurrent_calls [OF statsCurrent_constructor, of cs n g]
  by (simp add: snapshot_read statsCurrent_def)

lemma list_all_active_cause:
  "list_all active ps \<Longrightarrow> list_all (\<lambda>p. active p \<or> deactivationCause p) ps"
  by (induction ps) simp_all

lemma causeKnown_call: "causeKnown s \<Longrightarrow> causeKnown (call c s)"
  by (cases c)
     (simp_all add: causeKnown_def particles_update updateParticles_cause reset_def
        particles_initializeParticles spawn_active list_all_active_cause setTimeScale_def)

lemma causeKnown_calls: "causeKnown s \<Longrightarrow> causeKnown (calls cs s)"
  by (induction cs arbitrary: s) (simp_all add: causeKnown_call)

lemma causeKnown_constructor: "causeKnown (constructor n g)"
  by (simp add: causeKnown_def particles_constructor spawn_active list_all_active_cause)

lemma source_calls: "fst (random (calls cs s)) = fst (random s)"
  by (induction cs arbitrary: s) (simp_all add: source_call)

lemma length_particles_calls:
  "length (particles s) = nat (maxParticles s)
     \<Longrightarrow> length (particles (calls cs s)) = nat (maxParticles s)"
proof (induction cs arbitrary: s)
  case Nil
  then show ?case by simp
next
  case (Cons c cs)
  from Cons.IH [of "call c s"] Cons.prems show ?case
    by (simp add: maxParticles_call length_particles_call)
qed

lemma length_particles_reachable:
  "length (particles (calls cs (constructor n g))) = nat n"
  using length_particles_calls [of "constructor n g" cs]
  by (simp add: maxParticles_constructor particles_constructor spawn_length)

lemma allocated_call: "allocated s \<Longrightarrow> allocated (call c s)"
  by (cases c)
     (simp_all add: update_def reset_def initializeParticles_def setTimeScale_def split_def
        Let_def allocated_updateStatistics, simp add: allocated_def)

lemma allocated_calls: "allocated s \<Longrightarrow> allocated (calls cs s)"
  by (induction cs arbitrary: s) (simp_all add: allocated_call)

lemma allocated_constructor: "allocated (constructor n g)"
  by (simp add: constructor_def initializeParticles_def split_def Let_def
        allocated_updateStatistics)

lemma allocated_reachable: "allocated (calls cs (constructor n g))"
  by (rule allocated_calls [OF allocated_constructor])

lemma mass_call:
  assumes "\<And>k. 0 \<le> fst (random s) k" and "list_all (\<lambda>p. 1 \<le> mass p) (particles s)"
  shows "list_all (\<lambda>p. 1 \<le> mass p) (particles (call c s))"
  using assms
  by (cases c)
     (simp_all add: particles_update updateParticles_mass reset_def
        particles_initializeParticles spawn_mass setTimeScale_def)

lemma mass_calls:
  assumes "\<And>k. 0 \<le> fst (random s) k" and "list_all (\<lambda>p. 1 \<le> mass p) (particles s)"
  shows "list_all (\<lambda>p. 1 \<le> mass p) (particles (calls cs s))"
  using assms
proof (induction cs arbitrary: s)
  case Nil
  then show ?case by simp
next
  case (Cons c cs)
  have "\<And>k. 0 \<le> fst (random (call c s)) k"
    using Cons.prems(1) by (simp add: source_call)
  moreover have "list_all (\<lambda>p. 1 \<le> mass p) (particles (call c s))"
    using Cons.prems by (rule mass_call)
  ultimately show ?case using Cons.IH by simp
qed

lemma mass_reachable:
  assumes "\<And>k. 0 \<le> fst g k"
  shows "list_all (\<lambda>p. 1 \<le> mass p) (particles (calls cs (constructor n g)))"
proof (rule mass_calls)
  show "\<And>k. 0 \<le> fst (random (constructor n g)) k"
    using assms by (simp add: source_constructor)
  show "list_all (\<lambda>p. 1 \<le> mass p) (particles (constructor n g))"
    unfolding particles_constructor using assms by (rule spawn_mass)
qed

lemma tally_single_hydrogen:
  "hydrogen (typeCounts (tallyValue (particles (constructor 1 zeroSource)))) = 1"
  by (simp add: particles_constructor split_def Let_def tallyValue_def countParticle_def
        createParticle_fresh createParticle_zeroSource countByType_def zeroTally_def)

subsection \<open>Snapshots and the store\<close>

text \<open>
  Two calls of \<^verbatim>\<open>getStatistics()\<close> return different objects that read the same; an
  assignment to a field of the outer object of a snapshot is not seen by the system; an
  assignment inside one of its nested objects is.
\<close>

lemma getStatistics_copy:
  assumes "statsCurrent s"
  shows "\<exists>v. statsObjects (heap s) (stats s) = Some v
     \<and> getStatistics s = Some (nextRef (heap s),
          s\<lparr>heap := (heap s)\<lparr>statsObjects := (statsObjects (heap s))(nextRef (heap s) \<mapsto> v),
                              nextRef := Suc (nextRef (heap s))\<rparr>\<rparr>)"
  using assms
  by (auto simp add: statsCurrent_def readStatistics_def getStatistics_def newStatistics_def
        split: option.splits)

lemma repeated_getStatistics_equal:
  assumes "statsCurrent s"
  shows "\<exists>r1 s1 r2 s2. getStatistics s = Some (r1, s1) \<and> getStatistics s1 = Some (r2, s2)
     \<and> r1 \<noteq> r2
     \<and> readStatistics (heap s2) r1 = Some (tallyValue (particles s))
     \<and> readStatistics (heap s2) r2 = Some (tallyValue (particles s))"
  using assms
  by (auto simp add: statsCurrent_def readStatistics_def getStatistics_def newStatistics_def
        split: option.splits)

lemma outer_assignment_invisible:
  assumes "statsCurrent s" and "allocated s"
  shows "\<exists>r s1. getStatistics s = Some (r, s1)
     \<and> snapshot (s1\<lparr>heap := assign r (Outer f) (heap s1)\<rparr>) = Some (tallyValue (particles s))"
  using assms
  by (auto simp add: statsCurrent_def allocated_def readStatistics_def getStatistics_def
        newStatistics_def snapshot_read assign_def split: option.splits)

lemma nested_assignment_read:
  assumes "readStatistics (heap s) (stats s) = Some w"
  shows "\<exists>r s1. getStatistics s = Some (r, s1)
     \<and> snapshot s1 = Some w
     \<and> snapshot (s1\<lparr>heap := assign r (InParticleTypes f) (heap s1)\<rparr>)
          = Some (w\<lparr>typeCounts := f (typeCounts w)\<rparr>)
     \<and> snapshot (s1\<lparr>heap := assign r (InEnergyDistribution e) (heap s1)\<rparr>)
          = Some (w\<lparr>energies := e (energies w)\<rparr>)"
  using assms
  by (auto simp add: readStatistics_def getStatistics_def
        newStatistics_def snapshot_read assign_def split: option.splits)

lemma nested_assignment_visible:
  assumes "statsCurrent s"
  shows "\<exists>r s1. getStatistics s = Some (r, s1)
     \<and> snapshot s1 = Some (tallyValue (particles s))
     \<and> snapshot (s1\<lparr>heap := assign r (InParticleTypes f) (heap s1)\<rparr>)
          = Some ((tallyValue (particles s))\<lparr>typeCounts := f (typeCounts (tallyValue (particles s)))\<rparr>)
     \<and> snapshot (s1\<lparr>heap := assign r (InEnergyDistribution e) (heap s1)\<rparr>)
          = Some ((tallyValue (particles s))\<lparr>energies := e (energies (tallyValue (particles s)))\<rparr>)"
  using assms unfolding statsCurrent_def by (rule nested_assignment_read)

subsection \<open>The buffers\<close>

lemma triplet_nth:
  assumes "\<And>p. length (f p) = 3" and "i < length ps" and "k < 3"
  shows "concat (map f ps) ! (i * 3 + k) = f (ps ! i) ! k"
  using assms(2)
proof (induction ps arbitrary: i)
  case Nil
  then show ?case by simp
next
  case (Cons p ps)
  show ?case
  proof (cases i)
    case 0
    then show ?thesis using assms(1)[of p] assms(3) by (simp add: nth_append)
  next
    case (Suc j)
    then have "j < length ps" using Cons.prems by simp
    then have "concat (map f ps) ! (j * 3 + k) = f (ps ! j) ! k" by (rule Cons.IH)
    then show ?thesis using Suc assms(1)[of p] by (simp add: nth_append)
  qed
qed

lemma triplet_length:
  assumes "\<And>p. length (f p) = 3"
  shows "length (concat (map f ps)) = length ps * 3"
  using assms by (induction ps) simp_all

lemma positionTriplet_length: "length (positionTriplet p) = 3"
  by (simp add: positionTriplet_def)

lemma colorTriplet_length: "length (colorTriplet p) = 3"
  by (simp add: colorTriplet_def split: ParticleType.split)

lemma colorTriplet_range: "v \<in> set (colorTriplet p) \<Longrightarrow> 0 \<le> v \<and> v \<le> 1.44"
  by (auto simp add: colorTriplet_def split: ParticleType.splits if_splits)

lemma colorTriplet_value:
  "(colorTriplet p ! 0, colorTriplet p ! 1, colorTriplet p ! 2)
     = (let k = (if deflected p then 1.2 else 1)
        in if \<not> active p then (0, 0, 0)
           else case type p of
                  HYDROGEN \<Rightarrow> (0.4 * k, 0.5 * k, 0.9 * k)
                | HELIUM \<Rightarrow> (0.9 * k, 0.3 * k, 0.6 * k)
                | HEAVY_ION \<Rightarrow> (0.1 * k, 0.9 * k, 0.5 * k)
                | DUST \<Rightarrow> (1.0 * k, 0.6 * k, 0.1 * k))"
  by (simp add: colorTriplet_def Let_def split: ParticleType.split)

section \<open>The properties\<close>

text \<open>
  C1. A particle that is inactive when \<^verbatim>\<open>update\<close> is called was deactivated by
  capture, escape, age or collision, and the call respawns it in place: the slot then
  holds a freshly created particle (active, age 0, not deflected) to which neither the
  integration nor the deactivation checks of that frame have been applied. Hence no slot
  is inactive both before and after a call of \<^verbatim>\<open>update\<close>.
\<close>

theorem respawn_on_next_update:
  assumes "s = calls cs (constructor n g)" and "s' = update deltaTime s"
    and "i < length (particles s)" and "\<not> active (particles s ! i)"
  shows "deactivationCause (particles s ! i)
     \<and> (\<exists>k. particles s' ! i = fst (createParticle (fst g, k)))
     \<and> active (particles s' ! i) \<and> age (particles s' ! i) = 0
     \<and> \<not> deflected (particles s' ! i)"
proof -
  have "causeKnown s"
    using assms(1) causeKnown_calls [OF causeKnown_constructor] by simp
  with assms(3,4) have a: "deactivationCause (particles s ! i)"
    by (auto simp add: causeKnown_def list_all_length)
  have src: "fst (random s) = fst g"
    using assms(1) by (simp add: source_calls source_constructor)
  obtain k where k: "particles s' ! i = fst (createParticle (fst g, k))"
    using updateParticles_inactive [OF assms(3,4), of "deltaTime * timeScale s" "random s"]
      assms(2) src by (auto simp add: particles_update)
  from a k show ?thesis by (auto simp add: createParticle_fresh)
qed

text \<open>
  The premises of C1 hold for a system of one particle after a step of 1000 time units,
  which ages the particle out.
\<close>

theorem respawn_on_next_update_witness:
  "0 < length (particles (calls [Update 1000] (constructor 1 zeroSource)))
   \<and> \<not> active (particles (calls [Update 1000] (constructor 1 zeroSource)) ! 0)
   \<and> deactivationCause (particles (calls [Update 1000] (constructor 1 zeroSource)) ! 0)
   \<and> active (particles (update 1 (calls [Update 1000] (constructor 1 zeroSource))) ! 0)
   \<and> age (particles (update 1 (calls [Update 1000] (constructor 1 zeroSource))) ! 0) = 0
   \<and> \<not> deflected (particles (update 1 (calls [Update 1000] (constructor 1 zeroSource))) ! 0)"
proof -
  let ?init = "constructor 1 zeroSource"
  let ?s = "calls [Update 1000] ?init"
  have ts: "timeScale ?init = 1"
    by (simp add: constructor_def initializeParticles_def Let_def split_def updateStatistics_fields)
  have l0: "length (particles ?init) = 1"
    unfolding particles_constructor spawn_length by simp
  then obtain p where p: "particles ?init = [p]"
    by (cases "particles ?init") simp_all
  have "list_all active (particles ?init)"
    unfolding particles_constructor by (rule spawn_active)
  with p have ap: "active p" by simp
  have "age p = 0"
    using p by (auto simp add: particles_constructor split_def Let_def createParticle_fresh)
  then have "\<not> active (integrate 1000 p)"
    by (simp add: integrate_aged)
  moreover have "particles ?s ! 0 = integrate 1000 p"
    using p ap ts by (simp add: particles_update)
  ultimately have h: "\<not> active (particles ?s ! 0)" by simp
  have l: "0 < length (particles ?s)"
    using l0 by (simp add: particles_update updateParticles_length)
  from respawn_on_next_update [OF refl refl l h, of 1] l h show ?thesis by blast
qed

text \<open>
  C2. In every statistics snapshot (after construction and after any sequence of
  \<^verbatim>\<open>update\<close>, \<^verbatim>\<open>reset\<close> and \<^verbatim>\<open>setTimeScale\<close> calls) the active and the captured
  count add up to the total count, and the four per-type counts add up to the active count.
\<close>

theorem statistics_counts_consistent:
  "\<exists>v. snapshot (calls cs (constructor n g)) = Some v
       \<and> activeN v + capturedN v = total v
       \<and> hydrogen (typeCounts v) + helium (typeCounts v) + ions (typeCounts v)
             + dust (typeCounts v) = activeN v"
proof -
  let ?ps = "particles (calls cs (constructor n g))"
  have "length (filter active ?ps) + length (filter (\<lambda>p. \<not> active p) ?ps) = length ?ps"
    by (rule sum_length_filter_compl)
  moreover have "typesTotal (types (countParticles ?ps zeroTally)) = length (filter active ?ps)"
    by (simp add: countParticles_types) (simp add: zeroTally_def typesTotal_def)
  ultimately show ?thesis
    by (simp add: snapshot_reachable tallyValue_def Let_def countParticles_active
          countParticles_captured)
       (simp add: zeroTally_def typesTotal_def)
qed

text \<open>
  C3, as the code has it. The eight entries of the collision table are at the positions of
  the eight catalog planets, in the same order; every collision radius is larger than the
  catalog radius of the planet, by the margins listed.
\<close>

theorem collision_table_against_catalog:
  "map pos planetPositions = map Planet.position initializePlanets
   \<and> map2 (\<lambda>c p. radius c - Planet.radius p) planetPositions initializePlanets
       = [0.2, 0.2, 0.2, 0.2, 0.5, 0.3, 0.2, 0.2]"
  by (simp add: planetPositions_def initializePlanets_def)

text \<open>
  C3, as stated, fails at the first entry: Mercury collides within radius 0.5 and is
  catalogued with radius 0.3.
\<close>

theorem collision_radius_differs_from_catalog:
  "radius (planetPositions ! 0) = 0.5 \<and> Planet.radius (initializePlanets ! 0) = 0.3
   \<and> radius (planetPositions ! 0) \<noteq> Planet.radius (initializePlanets ! 0)"
  by (simp add: planetPositions_def initializePlanets_def)

text \<open>
  C4. With the time scale set to 0, one call \<^verbatim>\<open>update(1.0)\<close> leaves the position, the
  velocity and the age of every active particle unchanged. (The mass is positive, as the
  data model has it and as \<open>mass_reachable\<close> shows for every particle the system creates,
  so the model's division by the mass is the program's.)
\<close>

theorem zero_time_scale_freezes_particle:
  assumes "i < length (particles s)" and "active (particles s ! i)"
    and "0 < mass (particles s ! i)"
  shows "position (particles (update 1.0 (setTimeScale 0 s)) ! i) = position (particles s ! i)
     \<and> velocity (particles (update 1.0 (setTimeScale 0 s)) ! i) = velocity (particles s ! i)
     \<and> age (particles (update 1.0 (setTimeScale 0 s)) ! i) = age (particles s ! i)"
proof -
  have "particles (update 1.0 (setTimeScale 0 s)) ! i = integrate 0 (particles s ! i)"
    using assms by (simp add: particles_update setTimeScale_def updateParticles_active)
  moreover have "add v (multiplyScalar w 0) = v" for v w
    by (simp add: add_def multiplyScalar_def Vec_def)
  ultimately show ?thesis
    by (simp add: integrate_def checkCollision_fields checkBoundaries_fields advance_def
          Let_def split_def magneticDeflection_fields)
qed

text \<open>
  The premises of C4 hold for the particle of \<open>farSystem\<close>.
\<close>

theorem zero_time_scale_freezes_particle_witness:
  "0 < length (particles farSystem) \<and> active (particles farSystem ! 0)
   \<and> 0 < mass (particles farSystem ! 0)
   \<and> position (particles (update 1.0 (setTimeScale 0 farSystem)) ! 0) = Vec 1000 0 0
   \<and> velocity (particles (update 1.0 (setTimeScale 0 farSystem)) ! 0) = Vec (- 500) 0 0
   \<and> age (particles (update 1.0 (setTimeScale 0 farSystem)) ! 0) = 0"
proof -
  have l: "0 < length (particles farSystem)" and a: "active (particles farSystem ! 0)"
    and m: "0 < mass (particles farSystem ! 0)"
    by (simp_all add: farSystem_def farParticle_def)
  from zero_time_scale_freezes_particle [OF l a m] l a m show ?thesis
    by (simp add: farSystem_def farParticle_def)
qed

text \<open>
  C5. The object returned by \<^verbatim>\<open>getStatistics()\<close> shares its two nested objects with the
  statistics stored in the system. On a system of one hydrogen particle, assigning 99 to
  \<^verbatim>\<open>particleTypes.hydrogen\<close> of a returned snapshot makes the next call of
  \<^verbatim>\<open>getStatistics()\<close> report 99 hydrogen particles instead of 1. (The facts
  \<open>repeated_getStatistics_equal\<close> and \<open>outer_assignment_invisible\<close> show what does hold:
  repeated calls agree, and the seven fields of the outer object are protected.)
\<close>

theorem nested_statistics_objects_shared:
  "\<exists>r s1 v v'. getStatistics (constructor 1 zeroSource) = Some (r, s1)
     \<and> snapshot s1 = Some v \<and> hydrogen (typeCounts v) = 1
     \<and> snapshot (s1\<lparr>heap := assign r (InParticleTypes (setHydrogen 99)) (heap s1)\<rparr>) = Some v'
     \<and> hydrogen (typeCounts v') = 99"
proof -
  have "statsCurrent (constructor 1 zeroSource)" by (rule statsCurrent_constructor)
  from nested_assignment_visible [OF this, of "setHydrogen 99"]
  obtain r s1 where "getStatistics (constructor 1 zeroSource) = Some (r, s1)"
    and "snapshot s1 = Some (tallyValue (particles (constructor 1 zeroSource)))"
    and "snapshot (s1\<lparr>heap := assign r (InParticleTypes (setHydrogen 99)) (heap s1)\<rparr>)
          = Some ((tallyValue (particles (constructor 1 zeroSource)))
               \<lparr>typeCounts := setHydrogen 99 (typeCounts (tallyValue (particles (constructor 1 zeroSource))))\<rparr>)"
    by blast
  then show ?thesis
    by (simp add: tally_single_hydrogen setHydrogen_def)
qed

text \<open>
  C6, as the code has it. The escape test reads the position after the move. An active
  particle at distance 1000 from the origin is marked inactive by one call of
  \<^verbatim>\<open>update\<close> whenever the position it has after that call is still farther than 600
  from the origin; and that is so, whatever the direction of its velocity \<open>v\<close>, for every
  effective step \<open>dt\<close> (the product of \<^verbatim>\<open>deltaTime\<close> and the time scale) with
  \<open>|dt| * (|v| + |dt| / 1000000) < 400\<close>.
\<close>

theorem escape_decided_after_move:
  assumes "i < length (particles s)" and "active (particles s ! i)"
    and "0 < mass (particles s ! i)"
    and "vlength (position (particles s ! i)) = 1000"
  shows "(vlength (position (particles (update deltaTime s) ! i)) > heliopauseRadius * 1.2
            \<longrightarrow> \<not> active (particles (update deltaTime s) ! i))
     \<and> (\<bar>deltaTime * timeScale s\<bar>
            * (vlength (velocity (particles s ! i)) + \<bar>deltaTime * timeScale s\<bar> / 1000000) < 400
            \<longrightarrow> \<not> active (particles (update deltaTime s) ! i))"
proof -
  let ?p = "particles s ! i" and ?dt = "deltaTime * timeScale s"
  have u: "particles (update deltaTime s) ! i = integrate ?dt ?p"
    using assms(1,2) by (simp add: particles_update updateParticles_active)
  have a: "\<not> active (integrate ?dt ?p)"
    if "vlength (position (integrate ?dt ?p)) > heliopauseRadius * 1.2"
    using that by (simp add: position_integrate integrate_escaped)
  have b: "\<not> active (integrate ?dt ?p)"
    if "\<bar>?dt\<bar> * (vlength (velocity ?p) + \<bar>?dt\<bar> / 1000000) < 400"
  proof -
    from far_particle_distance [OF assms(4,3), of ?dt] that
    have "600 < vlength (position (advance ?dt ?p))" by simp
    then show ?thesis by (simp add: integrate_escaped heliopauseRadius_def)
  qed
  from a b show ?thesis unfolding u by blast
qed

text \<open>
  The premises of C6 hold for a particle at distance 1000 that flies outwards.
\<close>

theorem escape_decided_after_move_witness:
  "0 < length (particles driftingSystem) \<and> active (particles driftingSystem ! 0)
   \<and> 0 < mass (particles driftingSystem ! 0)
   \<and> vlength (position (particles driftingSystem ! 0)) = 1000
   \<and> vlength (position (particles (update 1 driftingSystem) ! 0)) > heliopauseRadius * 1.2
   \<and> \<bar>1 * timeScale driftingSystem\<bar>
        * (vlength (velocity (particles driftingSystem ! 0)) + \<bar>1 * timeScale driftingSystem\<bar> / 1000000)
        < 400
   \<and> \<not> active (particles (update 1 driftingSystem) ! 0)"
proof -
  have l: "0 < length (particles driftingSystem)" and a: "active (particles driftingSystem ! 0)"
    and m: "0 < mass (particles driftingSystem ! 0)"
    and d: "vlength (position (particles driftingSystem ! 0)) = 1000"
    and v: "\<bar>1 * timeScale driftingSystem\<bar>
        * (vlength (velocity (particles driftingSystem ! 0)) + \<bar>1 * timeScale driftingSystem\<bar> / 1000000)
        < 400"
    by (simp_all add: driftingSystem_def driftingParticle_def vlength_axis)
  have "particles (update 1 driftingSystem) ! 0 = integrate 1 driftingParticle"
    by (simp add: particles_update driftingSystem_def) (simp add: driftingParticle_def)
  then have e: "vlength (position (particles (update 1 driftingSystem) ! 0)) > heliopauseRadius * 1.2"
    by (simp add: position_integrate advance_drifting vlength_axis heliopauseRadius_def)
  from escape_decided_after_move [OF l a m d, of 1] l a m d e v show ?thesis by blast
qed

text \<open>
  C6, as stated, fails for a particle at distance 1000 whose velocity carries it back to
  distance 499.999999 within the step: it is still active after the call.
\<close>

theorem far_particle_can_return:
  "vlength (position farParticle) = 1000 \<and> active farParticle
     \<and> active (particles (update 1 farSystem) ! 0)"
proof -
  have "integrate 1 farParticle
      = farParticle\<lparr>age := 1, velocity := Vec (- 500.000001) 0 0, position := Vec 499.999999 0 0\<rparr>"
    by (simp add: integrate_def advance_far checkBoundaries_def checkCollision_def
          checkPlanetaryCollision_def planetPositions_def distanceTo_axis vlength_axis
          heliopauseRadius_def)
  then show ?thesis
    by (simp add: particles_update farSystem_def) (simp add: farParticle_def vlength_axis)
qed

text \<open>
  C7, as the code has it. For an active particle placed exactly at the origin, the gravity
  block and the solar-wind block leave the force as it was (their distance guards fail, no
  division by the distance takes place), the magnetic field there is (0, 0, 0.1), so the
  velocity changes by the magnetic term alone and the new position is the new velocity
  times the step, at distance \<open>|dt|\<close> times the new speed from the origin; the particle is
  flagged captured whenever that new position is closer than 2 to the origin.
\<close>

theorem origin_particle_forces_and_capture:
  assumes "i < length (particles s)" and "active (particles s ! i)"
    and "0 < mass (particles s ! i)" and "position (particles s ! i) = Vec 0 0 0"
  shows "solarGravity (particles s ! i) force = force
     \<and> solarWind (particles s ! i) force = force
     \<and> calculateMagneticField (position (particles s ! i)) = Vec 0 0 0.1
     \<and> velocity (particles (update deltaTime s) ! i)
         = add (velocity (particles s ! i))
             (multiplyScalar
                (divideScalar
                   (if charge (particles s ! i) \<noteq> 0 then lorentzForce (particles s ! i)
                    else Vec 0 0 0)
                   (mass (particles s ! i)))
                (deltaTime * timeScale s))
     \<and> position (particles (update deltaTime s) ! i)
         = multiplyScalar (velocity (particles (update deltaTime s) ! i)) (deltaTime * timeScale s)
     \<and> vlength (position (particles (update deltaTime s) ! i))
         = \<bar>deltaTime * timeScale s\<bar> * vlength (velocity (particles (update deltaTime s) ! i))
     \<and> (vlength (position (particles (update deltaTime s) ! i)) < 2
          \<longrightarrow> \<not> active (particles (update deltaTime s) ! i))"
proof -
  let ?p = "particles s ! i" and ?dt = "deltaTime * timeScale s"
  have u: "particles (update deltaTime s) ! i = integrate ?dt ?p"
    using assms(1,2) by (simp add: particles_update updateParticles_active)
  have v: "velocity (integrate ?dt ?p) = velocity (advance ?dt ?p)"
    by (simp add: integrate_def checkCollision_fields checkBoundaries_fields)
  have "vlength (position (advance ?dt ?p)) = \<bar>?dt\<bar> * vlength (velocity (advance ?dt ?p))"
    by (simp only: advance_origin(2) [OF assms(4)] vlength_multiplyScalar)
  then show ?thesis
    unfolding u using assms(4)
    by (simp add: solarGravity_origin solarWind_origin calculateMagneticField_origin v
          position_integrate advance_origin [OF assms(4)] integrate_captured)
qed

text \<open>
  The premises of C7 hold for the particle of \<open>originSystem\<close> and a step of 1/2.
\<close>

theorem origin_particle_forces_and_capture_witness:
  "0 < length (particles originSystem) \<and> active (particles originSystem ! 0)
   \<and> 0 < mass (particles originSystem ! 0)
   \<and> position (particles originSystem ! 0) = Vec 0 0 0
   \<and> vlength (position (particles (update (1 / 2) originSystem) ! 0)) < 2
   \<and> \<not> active (particles (update (1 / 2) originSystem) ! 0)"
proof -
  have l: "0 < length (particles originSystem)" and a: "active (particles originSystem ! 0)"
    and m: "0 < mass (particles originSystem ! 0)"
    and o: "position (particles originSystem ! 0) = Vec 0 0 0"
    by (simp_all add: originSystem_def originParticle_def)
  have "particles (update (1 / 2) originSystem) ! 0 = integrate (1 / 2) originParticle"
    by (simp add: particles_update originSystem_def) (simp add: originParticle_def)
  then have c: "vlength (position (particles (update (1 / 2) originSystem) ! 0)) < 2"
    by (simp add: integrate_origin_half vlength_axis)
  from origin_particle_forces_and_capture [OF l a m o, of "Vec 0 0 0" "1 / 2"] c l a m o
  show ?thesis by blast
qed

text \<open>
  C7, as stated, fails for a particle at the origin with speed 3 and a step of 1: the move
  takes it to distance 3 before the boundary check runs, and it stays active.
\<close>

theorem origin_particle_can_leave:
  "position originParticle = Vec 0 0 0 \<and> active originParticle
     \<and> position (particles (update 1 originSystem) ! 0) = Vec 3 0 0
     \<and> active (particles (update 1 originSystem) ! 0)"
  by (simp add: particles_update originSystem_def)
     (simp add: originParticle_def integrate_origin_one [unfolded originParticle_def])

text \<open>
  C8. For a system constructed with a non-negative particle count and after any sequence
  of \<^verbatim>\<open>update\<close>, \<^verbatim>\<open>reset\<close> and \<^verbatim>\<open>setTimeScale\<close> calls, both buffers have exactly
  three entries per particle, the entries \<open>3i\<close>, \<open>3i+1\<close>, \<open>3i+2\<close> being those of
  particle \<open>i\<close>; with a count of 0 the position buffer is empty, the snapshot reports 0
  particles and the average velocity is 0.
\<close>

theorem buffers_length_and_order:
  assumes "0 \<le> n" and "s = calls cs (constructor n g)"
  shows "int (length (getPositions s)) = 3 * n \<and> int (length (getColors s)) = 3 * n
     \<and> (\<forall>i. int i < n \<longrightarrow>
           [getPositions s ! (i * 3), getPositions s ! (i * 3 + 1), getPositions s ! (i * 3 + 2)]
             = positionTriplet (particles s ! i)
         \<and> [getColors s ! (i * 3), getColors s ! (i * 3 + 1), getColors s ! (i * 3 + 2)]
             = colorTriplet (particles s ! i))
     \<and> (n = 0 \<longrightarrow> getPositions s = []
           \<and> (\<exists>v. snapshot s = Some v \<and> total v = 0 \<and> average v = 0))"
proof -
  have len: "length (particles s) = nat n"
    using assms(2) by (simp add: length_particles_reachable)
  have lp: "int (length (getPositions s)) = 3 * n"
    using assms(1) len by (simp add: getPositions_def triplet_length positionTriplet_length)
  have lc: "int (length (getColors s)) = 3 * n"
    using assms(1) len by (simp add: getColors_def triplet_length colorTriplet_length)
  have tp: "[getPositions s ! (i * 3), getPositions s ! (i * 3 + 1), getPositions s ! (i * 3 + 2)]
             = positionTriplet (particles s ! i)" if "int i < n" for i
  proof -
    from that len have i: "i < length (particles s)" by simp
    have "getPositions s ! (i * 3 + k) = positionTriplet (particles s ! i) ! k" if "k < 3" for k
      unfolding getPositions_def using positionTriplet_length i that by (rule triplet_nth)
    from this [of 0] this [of 1] this [of 2] show ?thesis
      by (simp add: positionTriplet_def)
  qed
  have tc: "[getColors s ! (i * 3), getColors s ! (i * 3 + 1), getColors s ! (i * 3 + 2)]
             = colorTriplet (particles s ! i)" if "int i < n" for i
  proof -
    from that len have i: "i < length (particles s)" by simp
    have k: "getColors s ! (i * 3 + k) = colorTriplet (particles s ! i) ! k" if "k < 3" for k
      unfolding getColors_def using colorTriplet_length i that by (rule triplet_nth)
    have "length (colorTriplet (particles s ! i)) = 3" by (rule colorTriplet_length)
    then obtain a b c where "colorTriplet (particles s ! i) = [a, b, c]"
      by (auto simp add: length_Suc_conv numeral_3_eq_3)
    with k [of 0] k [of 1] k [of 2] show ?thesis by simp
  qed
  have z: "getPositions s = [] \<and> (\<exists>v. snapshot s = Some v \<and> total v = 0 \<and> average v = 0)"
    if "n = 0"
  proof -
    from that len have "particles s = []" by simp
    moreover have "snapshot s = Some (tallyValue (particles s))"
      using assms(2) by (simp add: snapshot_reachable)
    ultimately show ?thesis
      by (simp add: getPositions_def tallyValue_def zeroTally_def)
  qed
  from lp lc tp tc z show ?thesis by blast
qed

text \<open>
  The premises of C8 hold for a count of 2, and its last part for a count of 0.
\<close>

theorem buffers_length_and_order_witness:
  "(0::int) \<le> 2
   \<and> length (getPositions (calls [Update 1, SetTimeScale 3, Reset] (constructor 2 zeroSource))) = 6
   \<and> length (getColors (calls [Update 1, SetTimeScale 3, Reset] (constructor 2 zeroSource))) = 6
   \<and> getPositions (calls [Update 1, SetTimeScale 3, Reset] (constructor 2 zeroSource)) ! 5
       = z (position
             (particles (calls [Update 1, SetTimeScale 3, Reset] (constructor 2 zeroSource)) ! 1))
   \<and> getPositions (constructor 0 zeroSource) = []
   \<and> (\<exists>v. snapshot (constructor 0 zeroSource) = Some v \<and> total v = 0 \<and> average v = 0)"
proof -
  let ?s = "calls [Update 1, SetTimeScale 3, Reset] (constructor 2 zeroSource)"
  have a: "(0::int) \<le> 2" and b: "(0::int) \<le> 0" by simp_all
  have c: "constructor 0 zeroSource = calls [] (constructor 0 zeroSource)" by simp
  note two = buffers_length_and_order [OF a refl, of "[Update 1, SetTimeScale 3, Reset]" zeroSource]
  note zero = buffers_length_and_order [OF b c]
  from two have "int 1 < 2 \<longrightarrow>
      [getPositions ?s ! (1 * 3), getPositions ?s ! (1 * 3 + 1), getPositions ?s ! (1 * 3 + 2)]
        = positionTriplet (particles ?s ! 1)"
    by blast
  then have "getPositions ?s ! 5 = z (position (particles ?s ! 1))"
    by (simp add: positionTriplet_def)
  moreover from two
  have "int (length (getPositions ?s)) = 3 * 2" "int (length (getColors ?s)) = 3 * 2"
    by blast+
  ultimately show ?thesis using zero by simp
qed

text \<open>
  C9. The colour written for a particle is black when it is inactive and otherwise the
  fixed colour of its type, each channel multiplied by 1.2 when the particle is deflected;
  every entry of the colour buffer lies between 0 and 1.44.
\<close>

theorem getColors_values:
  assumes "i < length (particles s)"
  shows "(getColors s ! (i * 3), getColors s ! (i * 3 + 1), getColors s ! (i * 3 + 2))
       = (let p = particles s ! i; k = (if deflected p then 1.2 else 1)
          in if \<not> active p then (0, 0, 0)
             else case type p of
                    HYDROGEN \<Rightarrow> (0.4 * k, 0.5 * k, 0.9 * k)
                  | HELIUM \<Rightarrow> (0.9 * k, 0.3 * k, 0.6 * k)
                  | HEAVY_ION \<Rightarrow> (0.1 * k, 0.9 * k, 0.5 * k)
                  | DUST \<Rightarrow> (1.0 * k, 0.6 * k, 0.1 * k))
     \<and> (\<forall>v \<in> set (getColors s). 0 \<le> v \<and> v \<le> 1.44)"
proof -
  have "getColors s ! (i * 3 + k) = colorTriplet (particles s ! i) ! k" if "k < 3" for k
    unfolding getColors_def using colorTriplet_length assms that by (rule triplet_nth)
  from this [of 0] this [of 1] this [of 2]
  have "(getColors s ! (i * 3), getColors s ! (i * 3 + 1), getColors s ! (i * 3 + 2))
      = (colorTriplet (particles s ! i) ! 0, colorTriplet (particles s ! i) ! 1,
         colorTriplet (particles s ! i) ! 2)"
    by simp
  moreover have "\<forall>v \<in> set (getColors s). 0 \<le> v \<and> v \<le> 1.44"
    using colorTriplet_range by (auto simp add: getColors_def)
  ultimately show ?thesis
    by (simp only: colorTriplet_value Let_def)
qed

text \<open>
  The premise of C9 holds for the second particle of \<open>paletteSystem\<close>, a deflected helium
  particle.
\<close>

theorem getColors_values_witness:
  "1 < length (particles paletteSystem)
   \<and> (getColors paletteSystem ! 3, getColors paletteSystem ! 4, getColors paletteSystem ! 5)
        = (1.08, 0.36, 0.72)
   \<and> 1.08 \<in> set (getColors paletteSystem) \<and> (0::real) \<le> 1.08 \<and> (1.08::real) \<le> 1.44"
proof -
  have l: "1 < length (particles paletteSystem)"
    by (simp add: paletteSystem_def)
  have m: "1.08 \<in> set (getColors paletteSystem)"
    by (simp add: getColors_def paletteSystem_def colorTriplet_def deflectedHelium_def farParticle_def)
  from getColors_values [OF l] m show ?thesis
    using l by (simp add: paletteSystem_def deflectedHelium_def)
qed

text \<open>
  C10. In every statistics snapshot the deflected count is at most the active count: it
  counts the particles that are active and deflected, and a particle that is inactive is
  counted as captured whatever its \<^verbatim>\<open>deflected\<close> flag says. The flag itself survives the
  loop body, deactivation included.
\<close>

theorem deflected_counted_among_active:
  "(\<exists>v. snapshot (calls cs (constructor n g)) = Some v
        \<and> deflectedN v \<le> activeN v
        \<and> activeN v = length (filter active (particles (calls cs (constructor n g))))
        \<and> deflectedN v
            = length (filter (\<lambda>p. active p \<and> deflected p) (particles (calls cs (constructor n g))))
        \<and> capturedN v
            = length (filter (\<lambda>p. \<not> active p) (particles (calls cs (constructor n g)))))
   \<and> (deflected p \<longrightarrow> deflected (integrate dt p))"
proof -
  let ?ps = "particles (calls cs (constructor n g))"
  have "length (filter (\<lambda>p. active p \<and> deflected p) ?ps) \<le> length (filter active ?ps)"
  proof -
    have "filter (\<lambda>p. active p \<and> deflected p) ?ps = filter deflected (filter active ?ps)"
      by (simp add: conj_commute)
    then show ?thesis by (simp only: length_filter_le)
  qed
  then show ?thesis
    by (simp add: snapshot_reachable tallyValue_def Let_def countParticles_active
          countParticles_captured countParticles_deflected integrate_deflected)
       (simp add: zeroTally_def)
qed

text \<open>
  The premise of C10 holds for a deflected helium particle, which a step of 200 time units
  deactivates with its flag still set.
\<close>

theorem deflected_counted_among_active_witness:
  "deflected deflectedHelium \<and> deflected (integrate 200 deflectedHelium)
     \<and> \<not> active (integrate 200 deflectedHelium)"
proof -
  have d: "deflected deflectedHelium" by (simp add: deflectedHelium_def)
  have "\<not> active (integrate 200 deflectedHelium)"
    by (rule integrate_aged) (simp add: deflectedHelium_def)
  with d deflected_counted_among_active [of "[]" 0 zeroSource deflectedHelium 200]
  show ?thesis by blast
qed

end
